theory Spec2Isabelle
  imports Complex_Main "HOL-Library.Sublist"
begin

section \<open>Numbers, keys and stored values\<close>

text \<open>
  The rate limiter works on JavaScript numbers, which are IEEE 754 doubles. Timestamps
  (\<open>Date.now()\<close>, in milliseconds), limits, window lengths, weights and counts are
  integers and are modelled as \<open>int\<close>: doubles represent integers exactly, and add,
  subtract and multiply them exactly, as long as they stay below \<open>2^53\<close> in magnitude.
  Fractional values are modelled as rationals (\<open>rat\<close>). The sliding window's share of
  the previous window is a fraction whose floor decides admission, so its three
  floating-point operations are modelled with the rounding a double operation performs
  (\<open>fl\<close> below). The token bucket's \<open>tokens\<close> and \<open>refillRate\<close> are kept in exact
  arithmetic; the source's doubles can differ from them in the last place, which is noted
  where the token bucket is defined.

  \<open>Math.floor(now / windowMs) * windowMs\<close> is \<open>(now div windowMs) * windowMs\<close>:
  \<open>div\<close> on \<open>int\<close> rounds towards minus infinity, as \<open>Math.floor\<close> of the quotient does.
\<close>

subsection \<open>Template literals: rendering a number inside a key\<close>

text \<open>
  A store key is built by a template literal such as \<^verbatim>\<open>`${key}:${windowStart}`\<close>, which
  renders the integer \<open>windowStart\<close> in decimal, with a leading minus sign when negative.
  \<open>digit_char\<close> is only ever applied to a digit below 10.
\<close>

definition digit_char :: "nat \<Rightarrow> char" where
  "digit_char d = ''0123456789'' ! d"

fun show_nat :: "nat \<Rightarrow> string" where
  "show_nat n = (if n < 10 then [digit_char n]
                 else show_nat (n div 10) @ [digit_char (n mod 10)])"

declare show_nat.simps [simp del]

definition show_int :: "int \<Rightarrow> string" where
  "show_int i = (if i < 0 then CHR ''-'' # show_nat (nat (- i)) else show_nat (nat i))"


subsection \<open>Double-precision rounding\<close>

text \<open>
  The result of a double operation is the exact result rounded to the nearest double,
  ties going to the even significand. A double has a 53-bit significand: a non-zero value
  \<open>x\<close> with \<open>2^e \<le> |x| < 2^(e+1)\<close> is rounded to a multiple of \<open>2^(e-52)\<close>, and below
  \<open>2^(-1022)\<close> (subnormal range) to a multiple of \<open>2^(-1074)\<close>. \<open>binary_exponent\<close> is that
  \<open>e\<close> (lemma \<open>binary_exponent_bounds\<close>), computed from the bit length of the integer
  part of \<open>x\<close>, or of \<open>1 / x\<close> when \<open>x < 1\<close>. Overflow to \<open>Infinity\<close>, \<open>NaN\<close> and the sign
  of zero are not represented: the values rounded here lie between 0 and a stored count.
\<close>

fun bit_length :: "nat \<Rightarrow> nat" where
  "bit_length n = (if n = 0 then 0 else Suc (bit_length (n div 2)))"

declare bit_length.simps [simp del]

definition binary_exponent :: "rat \<Rightarrow> int" where
  "binary_exponent x =
     (if 1 \<le> x then int (bit_length (nat \<lfloor>x\<rfloor>)) - 1
      else - int (bit_length (nat (\<lceil>1 / x\<rceil> - 1))))"

definition pow2 :: "int \<Rightarrow> rat" where
  "pow2 e = (if 0 \<le> e then 2 ^ nat e else 1 / 2 ^ nat (- e))"

definition round_half_even :: "rat \<Rightarrow> int" where
  "round_half_even m =
     (let f = \<lfloor>m\<rfloor>; r = m - rat_of_int f
      in if r < 1 / 2 then f
         else if 1 / 2 < r then f + 1
         else if even f then f else f + 1)"

definition fl :: "rat \<Rightarrow> rat" where
  "fl x =
     (if x = 0 then 0
      else (let e = max (binary_exponent \<bar>x\<bar>) (- 1022);
                quantum = pow2 (e - 52)
            in rat_of_int (round_half_even (x / quantum)) * quantum))"

subsection \<open>Stored values and decisions\<close>

text \<open>
  The objects the strategies keep in the store. Both shapes have a field \<open>resetTime\<close> in
  the source; the bucket's is named \<open>bucketResetTime\<close> here and the decision's
  \<open>resetTimeD\<close>, since record fields share one name space.
\<close>

record CounterRecord =
  count :: int
  resetTime :: int

record TokenBucket =
  tokens :: rat
  lastRefill :: int
  bucketResetTime :: int

record Decision =
  limited :: bool
  remaining :: int
  resetTimeD :: int
  consumed :: int

record SlidingDecision = Decision +
  currentCount :: int
  previousCount :: int

section \<open>The state stores\<close>

text \<open>
  \<open>MemoryStore\<close> holds a \<open>Map\<close> from prefixed key to the stored object; \<open>set\<close> stamps the
  object with \<open>_expireAt\<close>, so a cell of the map is the object's fields paired with that
  stamp. \<open>RedisStore\<close> holds a client handle of an external Redis service. The service is
  not part of the repository; what the strategies rely on is modelled as a map from key
  to the serialised value and its optional expiry instant (in milliseconds):
  \<open>GET\<close> returns nothing for a key whose expiry has passed, \<open>SETEX\<close> stores with an
  expiry of so many seconds from now, \<open>SET\<close> stores without expiry, \<open>DEL\<close> removes.
  \<open>JSON.stringify\<close> followed by \<open>JSON.parse\<close> is the identity on the stored shapes.
  The model covers calls in which the service answers: no I/O failure, and no refusal
  of a non-positive number of seconds, which only a negative \<open>windowMs\<close> could produce.
\<close>

type_synonym 'v memory_cells = "string \<rightharpoonup> 'v \<times> int"
type_synonym 'v redis_client = "string \<rightharpoonup> 'v \<times> int option"

datatype 'v store =
    MemoryStore (keyPrefix: string) (cells: "'v memory_cells")
  | RedisStore (keyPrefix: string) (client: "'v redis_client")

definition redis_GET :: "int \<Rightarrow> 'v redis_client \<Rightarrow> string \<Rightarrow> 'v option" where
  "redis_GET now c k =
     (case c k of
        None \<Rightarrow> None
      | Some (v, None) \<Rightarrow> Some v
      | Some (v, Some expiry) \<Rightarrow> if expiry \<le> now then None else Some v)"

definition redis_SETEX :: "int \<Rightarrow> 'v redis_client \<Rightarrow> string \<Rightarrow> int \<Rightarrow> 'v \<Rightarrow> 'v redis_client" where
  "redis_SETEX now c k seconds v = c(k \<mapsto> (v, Some (now + 1000 * seconds)))"

definition redis_SET :: "'v redis_client \<Rightarrow> string \<Rightarrow> 'v \<Rightarrow> 'v redis_client" where
  "redis_SET c k v = c(k \<mapsto> (v, None))"

definition redis_DEL :: "'v redis_client \<Rightarrow> string \<Rightarrow> 'v redis_client" where
  "redis_DEL c k = c(k := None)"

text \<open>
  \<open>get(key)\<close>. \<open>MemoryStore.get\<close> returns \<open>this.store.get(prefixedKey)\<close>: whatever the map
  holds, with no look at \<open>_expireAt\<close>. \<open>RedisStore.get\<close> asks the service and parses.
  The clock \<open>now\<close> is an argument because the Redis service decides expiry by it.
\<close>

fun store_get :: "int \<Rightarrow> 'v store \<Rightarrow> string \<Rightarrow> 'v option" where
  "store_get now (MemoryStore pfx m) key =
     (let prefixedKey = pfx @ key in map_option fst (m prefixedKey))"
| "store_get now (RedisStore pfx c) key =
     (let prefixedKey = pfx @ key in redis_GET now c prefixedKey)"

text \<open>
  \<open>set(key, value, ttl)\<close>. \<open>MemoryStore.set\<close> stamps \<open>value._expireAt = Date.now() + ttl\<close>
  and puts the object in the map. \<open>RedisStore.set\<close> uses \<open>setEx\<close> with
  \<open>Math.ceil(ttl / 1000)\<close> seconds when \<open>ttl\<close> is truthy (non-zero) and plain \<open>set\<close> otherwise.
\<close>

fun store_set :: "int \<Rightarrow> 'v store \<Rightarrow> string \<Rightarrow> 'v \<Rightarrow> int \<Rightarrow> 'v store" where
  "store_set now (MemoryStore pfx m) key v ttl =
     (let prefixedKey = pfx @ key
      in MemoryStore pfx (m(prefixedKey \<mapsto> (v, now + ttl))))"
| "store_set now (RedisStore pfx c) key v ttl =
     (let prefixedKey = pfx @ key
      in if ttl \<noteq> 0
         then RedisStore pfx
                (redis_SETEX now c prefixedKey \<lceil>rat_of_int ttl / 1000\<rceil> v)
         else RedisStore pfx (redis_SET c prefixedKey v))"

fun store_del :: "'v store \<Rightarrow> string \<Rightarrow> 'v store" where
  "store_del (MemoryStore pfx m) key =
     (let prefixedKey = pfx @ key in MemoryStore pfx (m(prefixedKey := None)))"
| "store_del (RedisStore pfx c) key =
     (let prefixedKey = pfx @ key in RedisStore pfx (redis_DEL c prefixedKey))"

text \<open>
  \<open>reset()\<close>. \<open>MemoryStore.reset\<close> clears the whole map; \<open>RedisStore.reset\<close> deletes the
  keys the service lists for the pattern \<^verbatim>\<open>`${keyPrefix}*`\<close>, modelled as the keys that
  start with the prefix.
\<close>

fun store_reset :: "'v store \<Rightarrow> 'v store" where
  "store_reset (MemoryStore pfx m) = MemoryStore pfx Map.empty"
| "store_reset (RedisStore pfx c) =
     RedisStore pfx (\<lambda>k. if prefix pfx k then None else c k)"

text \<open>
  \<open>MemoryStore.gc()\<close>, run by the interval timer every 60000 ms: deletes every cell whose
  \<open>_expireAt\<close> is truthy (non-zero) and not after \<open>now\<close>.
\<close>

definition gc :: "int \<Rightarrow> 'v memory_cells \<Rightarrow> 'v memory_cells" where
  "gc now m =
     (\<lambda>k. case m k of
             None \<Rightarrow> None
           | Some (v, expireAt) \<Rightarrow>
               if expireAt \<noteq> 0 \<and> expireAt \<le> now then None else Some (v, expireAt))"

text \<open>
  Aliasing. \<open>MemoryStore.get\<close> hands out the very object held in the map, so an assignment
  to a field of a fetched object changes the stored object at once, without any call of
  \<open>set\<close> and without touching its \<open>_expireAt\<close>. \<open>RedisStore.get\<close> hands out a fresh object
  built by \<open>JSON.parse\<close>, so the same assignment stays local. Every object a strategy puts
  under a key was either created in that call or fetched from that same key, so an object
  is reachable from one key only and the write lands in exactly that cell.
\<close>

fun assign_fetched :: "'v store \<Rightarrow> string \<Rightarrow> 'v \<Rightarrow> 'v store" where
  "assign_fetched (MemoryStore pfx m) key v =
     (let prefixedKey = pfx @ key
      in case m prefixedKey of
           None \<Rightarrow> MemoryStore pfx m
         | Some (old, expireAt) \<Rightarrow> MemoryStore pfx (m(prefixedKey \<mapsto> (v, expireAt))))"
| "assign_fetched (RedisStore pfx c) key v = RedisStore pfx c"

section \<open>The counting strategies\<close>

text \<open>
  A strategy object holds \<open>this.store\<close>, \<open>this.limit\<close> and \<open>this.windowMs\<close> (and
  \<open>this.refillRate\<close> for the token bucket). The numbers are fixed by the constructor; the
  store is the state, passed in and returned. \<open>options.limit || 100\<close> takes the default
  when the option is missing or zero. A call reads the clock in \<open>consume\<close> and again in
  \<open>MemoryStore.set\<close>; both readings are taken to be the same instant \<open>now\<close>.
\<close>

record Options =
  opt_limit :: "int option"
  opt_windowMs :: "int option"

definition or_default :: "int option \<Rightarrow> int \<Rightarrow> int" where
  "or_default v d = (case v of None \<Rightarrow> d | Some x \<Rightarrow> if x = 0 then d else x)"

record Strategy =
  limit :: int
  windowMs :: int

record TokenStrategy = Strategy +
  refillRate :: rat

definition FixedWindowStrategy :: "Options \<Rightarrow> Strategy" where
  "FixedWindowStrategy options =
     \<lparr>limit = or_default (opt_limit options) 100,
      windowMs = or_default (opt_windowMs options) 60000\<rparr>"

definition SlidingWindowStrategy :: "Options \<Rightarrow> Strategy" where
  "SlidingWindowStrategy options =
     \<lparr>limit = or_default (opt_limit options) 100,
      windowMs = or_default (opt_windowMs options) 60000\<rparr>"

definition TokenBucketStrategy :: "Options \<Rightarrow> TokenStrategy" where
  "TokenBucketStrategy options =
     (let l = or_default (opt_limit options) 100;
          w = or_default (opt_windowMs options) 60000
      in \<lparr>limit = l, windowMs = w, refillRate = rat_of_int l / rat_of_int w\<rparr>)"

subsection \<open>Fixed window\<close>

definition FixedWindow_consume ::
  "Strategy \<Rightarrow> int \<Rightarrow> CounterRecord store \<Rightarrow> string \<Rightarrow> int \<Rightarrow> Decision \<times> CounterRecord store" where
  "FixedWindow_consume this now st key weight =
     (let windowStart = (now div windowMs this) * windowMs this;
          windowEnd = windowStart + windowMs this;
          storeKey = key @ '':'' @ show_int windowStart;
          rcd = (case store_get now st storeKey of
                   None \<Rightarrow> \<lparr>count = 0, resetTime = windowEnd\<rparr>
                 | Some r \<Rightarrow> r);
          newCount = count rcd + weight;
          remaining = max 0 (limit this - newCount);
          limited = (newCount > limit this);
          st' = (if \<not> limited
                 then store_set now st storeKey (rcd\<lparr>count := newCount\<rparr>) (windowMs this)
                 else st)
      in (\<lparr>limited = limited, remaining = remaining, resetTimeD = resetTime rcd,
           consumed = (if limited then 0 else weight)\<rparr>, st'))"

definition FixedWindow_resetKey ::
  "Strategy \<Rightarrow> int \<Rightarrow> CounterRecord store \<Rightarrow> string \<Rightarrow> CounterRecord store" where
  "FixedWindow_resetKey this now st key =
     (let windowStart = (now div windowMs this) * windowMs this;
          storeKey = key @ '':'' @ show_int windowStart
      in store_del st storeKey)"

subsection \<open>Token bucket\<close>

text \<open>
  The refill step assigns to \<open>bucket.tokens\<close> and \<open>bucket.lastRefill\<close> before the admission
  test. When the bucket was fetched from a \<open>MemoryStore\<close> these assignments reach the
  stored object (\<open>assign_fetched\<close>); when it was created in this call, or parsed from
  Redis, they change the local object only. \<open>store.set\<close> is called on admission only.

  \<open>tokens\<close> and \<open>refillRate\<close> are exact rationals here. In the source they are doubles,
  and a refilled token count can fall short of the exact value in the last place: with
  \<open>limit = 1\<close> and \<open>windowMs = 49\<close> a bucket emptied at time 0 holds
  \<open>0.9999999999999999\<close> at time 49, where exact arithmetic gives 1. What is proved about
  the token bucket below relates the values one call computes (the test against the
  refilled tokens, what is stored and when), and evaluates the function only at inputs
  where the doubles give the same values (lemma \<open>token_examples_in_doubles\<close>); no general
  statement rests on the exact value of a refilled bucket.
\<close>

definition TokenBucket_consume ::
  "TokenStrategy \<Rightarrow> int \<Rightarrow> TokenBucket store \<Rightarrow> string \<Rightarrow> int \<Rightarrow> Decision \<times> TokenBucket store" where
  "TokenBucket_consume this now st key weight =
     (let storeKey = key @ '':token'';
          bucket0 = (case store_get now st storeKey of
                       None \<Rightarrow> \<lparr>tokens = rat_of_int (limit this), lastRefill = now,
                                bucketResetTime = now + windowMs this\<rparr>
                     | Some b \<Rightarrow> b);
          elapsed = now - lastRefill bucket0;
          bucket1 = (if elapsed > 0
                     then bucket0\<lparr>tokens := min (rat_of_int (limit this))
                                               (tokens bucket0 + rat_of_int elapsed * refillRate this),
                                  lastRefill := now\<rparr>
                     else bucket0);
          st1 = assign_fetched st storeKey bucket1;
          remaining = max 0 (tokens bucket1 - rat_of_int weight);
          limited = (tokens bucket1 < rat_of_int weight);
          bucket2 = (if \<not> limited
                     then (let b = bucket1\<lparr>tokens := tokens bucket1 - rat_of_int weight\<rparr>
                           in if tokens b = 0
                              then b\<lparr>bucketResetTime :=
                                       now + \<lceil>rat_of_int weight / refillRate this\<rceil>\<rparr>
                              else b)
                     else bucket1);
          st2 = (if \<not> limited
                 then store_set now st1 storeKey bucket2 (windowMs this * 2)
                 else st1)
      in (\<lparr>limited = limited, remaining = \<lfloor>remaining\<rfloor>,
           resetTimeD = (if limited
                         then now + \<lceil>(rat_of_int weight - tokens bucket2) / refillRate this\<rceil>
                         else bucketResetTime bucket2),
           consumed = (if limited then 0 else weight)\<rparr>, st2))"

definition TokenBucket_resetKey :: "TokenBucket store \<Rightarrow> string \<Rightarrow> TokenBucket store" where
  "TokenBucket_resetKey st key = (let storeKey = key @ '':token'' in store_del st storeKey)"

subsection \<open>Sliding window\<close>

text \<open>
  \<open>timeElapsed / this.windowMs\<close>, \<open>1 - ...\<close> and \<open>previousCount * timeRatio\<close> are double
  operations on values that are not integers: each result is rounded (\<open>fl\<close>) before
  \<open>Math.floor\<close> is taken. The other operations of the function are on integers.
\<close>

definition SlidingWindow_consume ::
  "Strategy \<Rightarrow> int \<Rightarrow> CounterRecord store \<Rightarrow> string \<Rightarrow> int
     \<Rightarrow> SlidingDecision \<times> CounterRecord store" where
  "SlidingWindow_consume this now st key weight =
     (let currentWindow = (now div windowMs this) * windowMs this;
          previousWindow = currentWindow - windowMs this;
          currentKey = key @ '':'' @ show_int currentWindow;
          previousKey = key @ '':'' @ show_int previousWindow;
          currentRecord = (case store_get now st currentKey of
                             None \<Rightarrow> \<lparr>count = 0, resetTime = currentWindow + windowMs this\<rparr>
                           | Some r \<Rightarrow> r);
          previousCount = (case store_get now st previousKey of
                             None \<Rightarrow> 0
                           | Some r \<Rightarrow> count r);
          timeElapsed = now - currentWindow;
          timeRatio = fl (1 - fl (rat_of_int timeElapsed / rat_of_int (windowMs this)));
          effectivePreviousCount = \<lfloor>fl (rat_of_int previousCount * timeRatio)\<rfloor>;
          effectiveCurrentCount = count currentRecord;
          newCount = effectiveCurrentCount + weight;
          effectiveNewTotal = effectivePreviousCount + newCount;
          remaining = max 0 (limit this - effectiveNewTotal);
          limited = (effectiveNewTotal > limit this);
          currentRecord' = (if \<not> limited then currentRecord\<lparr>count := newCount\<rparr>
                            else currentRecord);
          st' = (if \<not> limited
                 then store_set now st currentKey currentRecord' (windowMs this * 2)
                 else st)
      in (\<lparr>limited = limited, remaining = remaining, resetTimeD = resetTime currentRecord,
           consumed = (if limited then 0 else weight),
           currentCount = count currentRecord', previousCount = effectivePreviousCount\<rparr>, st'))"

text \<open>
  \<open>resetKey\<close> deletes the current and the previous window's key through \<open>Promise.all\<close>;
  the two deletions touch different keys, so their order does not matter.
\<close>

definition SlidingWindow_resetKey ::
  "Strategy \<Rightarrow> int \<Rightarrow> CounterRecord store \<Rightarrow> string \<Rightarrow> CounterRecord store" where
  "SlidingWindow_resetKey this now st key =
     (let currentWindow = (now div windowMs this) * windowMs this;
          previousWindow = currentWindow - windowMs this;
          currentKey = key @ '':'' @ show_int currentWindow;
          previousKey = key @ '':'' @ show_int previousWindow
      in store_del (store_del st currentKey) previousKey)"

section \<open>The orchestrator\<close>

subsection \<open>Path weights\<close>

text \<open>
  \<open>patternMatches\<close> falls back on \<open>new RegExp(pattern).test(path)\<close> inside \<open>try\<close>/\<open>catch\<close>.
  The regular-expression engine is the JavaScript runtime's, not the repository's: it is
  a parameter. \<open>engine pattern\<close> is \<open>None\<close> when the constructor throws (a malformed
  pattern) and otherwise the compiled expression's \<open>test\<close>.
\<close>

type_synonym regexp_engine = "string \<Rightarrow> (string \<Rightarrow> bool) option"

definition endsWith_star :: "string \<Rightarrow> bool" where
  "endsWith_star pattern = (pattern \<noteq> [] \<and> last pattern = CHR ''*'')"

definition patternMatches :: "regexp_engine \<Rightarrow> string \<Rightarrow> string \<Rightarrow> bool" where
  "patternMatches engine pattern path =
     (if pattern = path then True
      else if endsWith_star pattern then prefix (butlast pattern) path
      else (case engine pattern of
              None \<Rightarrow> False
            | Some test \<Rightarrow> test path))"

text \<open>
  The rule set is the list \<open>Object.entries\<close> yields: the rules in declaration order (for
  keys that are not array indices, which no path pattern is).
\<close>

fun first_match :: "regexp_engine \<Rightarrow> (string \<times> int) list \<Rightarrow> string \<Rightarrow> int" where
  "first_match engine [] path = 1"
| "first_match engine ((pattern, weight) # rest) path =
     (if patternMatches engine pattern path then weight else first_match engine rest path)"

text \<open>\<open>getPathWeight\<close> of \<open>flame-limit.js\<close>: \<open>config.weightByPath\<close> is the switch and
  \<open>config.weights\<close> the rule set.\<close>

definition getPathWeight ::
  "regexp_engine \<Rightarrow> bool \<Rightarrow> (string \<times> int) list option \<Rightarrow> string \<Rightarrow> int" where
  "getPathWeight engine weightByPath weights path =
     (case weights of
        None \<Rightarrow> 1
      | Some rules \<Rightarrow> if \<not> weightByPath then 1 else first_match engine rules path)"

text \<open>\<open>getPathWeight\<close> of the single-file limiter: \<open>weightByPath\<close> is itself the rule set
  (\<open>options.weightByPath || {}\<close>), searched by a loop that breaks at the first match.\<close>

definition getPathWeight_basic ::
  "regexp_engine \<Rightarrow> (string \<times> int) list option \<Rightarrow> string \<Rightarrow> int" where
  "getPathWeight_basic engine weightByPath path =
     (let pathEntries = (case weightByPath of None \<Rightarrow> [] | Some rules \<Rightarrow> rules)
      in first_match engine pathEntries path)"

subsection \<open>Construction\<close>

text \<open>
  \<open>STORES\<close> and \<open>STRATEGIES\<close> are object literals, and \<open>STORES[config.backend]\<close> is an
  ordinary property read: a name the literal does not define is looked up on
  \<open>Object.prototype\<close>. There \<open>constructor\<close> is the function \<open>Object\<close>, which \<open>new\<close> accepts;
  the other inherited names are methods or accessors that \<open>new\<close> rejects with a
  \<open>TypeError\<close>; any other name reads as \<open>undefined\<close>.
\<close>

datatype js_error = Error string | TypeError string

datatype js_value =
    MemoryStoreClass | RedisStoreClass
  | FixedWindowClass | SlidingWindowClass | TokenBucketClass
  | ObjectFunction
  | NotAConstructor

definition Object_prototype :: "string \<Rightarrow> js_value option" where
  "Object_prototype name =
     (if name = ''constructor'' then Some ObjectFunction
      else if name \<in> set [''__defineGetter__'', ''__defineSetter__'', ''hasOwnProperty'',
                           ''__lookupGetter__'', ''__lookupSetter__'', ''isPrototypeOf'',
                           ''propertyIsEnumerable'', ''toString'', ''valueOf'', ''__proto__'',
                           ''toLocaleString'']
      then Some NotAConstructor
      else None)"

definition STRATEGIES :: "string \<Rightarrow> js_value option" where
  "STRATEGIES name =
     (if name = ''fixed'' then Some FixedWindowClass
      else if name = ''sliding'' then Some SlidingWindowClass
      else if name = ''token'' then Some TokenBucketClass
      else Object_prototype name)"

definition STORES :: "string \<Rightarrow> js_value option" where
  "STORES name =
     (if name = ''memory'' then Some MemoryStoreClass
      else if name = ''redis'' then Some RedisStoreClass
      else Object_prototype name)"

text \<open>
  The options object, merged over \<open>DEFAULT_OPTIONS\<close>. A field is \<open>None\<close> when the caller
  did not give it. The Redis client handle stands for the service's contents, split by
  the shape of the stored value. Identity resolution and the response writer are outside
  the engine and are left out.
\<close>

record RedisClient =
  counters :: "CounterRecord redis_client"
  buckets :: "TokenBucket redis_client"

record FlameOptions =
  o_limit :: "int option"
  o_windowMs :: "int option"
  o_backend :: "string option"
  o_strategy :: "string option"
  o_weightByPath :: "bool option"
  o_weights :: "(string \<times> int) list option"
  o_keyPrefix :: "string option"
  o_redisClient :: "RedisClient option"

record Config =
  c_limit :: int
  c_windowMs :: int
  backend :: string
  strategy :: string
  weightByPath :: bool
  weights :: "(string \<times> int) list option"
  c_keyPrefix :: string
  redisClient :: "RedisClient option"

definition merge_defaults :: "FlameOptions \<Rightarrow> Config" where
  "merge_defaults options =
     \<lparr>c_limit = (case o_limit options of None \<Rightarrow> 100 | Some l \<Rightarrow> l),
      c_windowMs = (case o_windowMs options of None \<Rightarrow> 60000 | Some w \<Rightarrow> w),
      backend = (case o_backend options of None \<Rightarrow> ''memory'' | Some b \<Rightarrow> b),
      strategy = (case o_strategy options of None \<Rightarrow> ''fixed'' | Some s \<Rightarrow> s),
      weightByPath = (case o_weightByPath options of None \<Rightarrow> False | Some b \<Rightarrow> b),
      weights = o_weights options,
      c_keyPrefix = (case o_keyPrefix options of None \<Rightarrow> ''flame-limit:'' | Some p \<Rightarrow> p),
      redisClient = o_redisClient options\<rparr>"

text \<open>
  What \<open>new Store(...)\<close> yields. The source passes \<open>(config.redisClient, config.keyPrefix)\<close>
  when \<open>config.backend === 'redis'\<close> and \<open>(config.keyPrefix)\<close> otherwise; the class read
  from \<open>STORES\<close> is \<open>RedisStore\<close> exactly in the first case. \<open>RedisStore\<close>'s constructor throws
  when the client is missing. \<open>new Object(keyPrefix)\<close> is a wrapper object around the prefix
  string: it has no \<open>get\<close>, \<open>set\<close> or \<open>del\<close>.
\<close>

datatype store_object =
    AMemoryStore string
  | ARedisStore RedisClient string
  | NotAStore

definition new_Store :: "js_value \<Rightarrow> Config \<Rightarrow> js_error + store_object" where
  "new_Store Store config =
     (case Store of
        MemoryStoreClass \<Rightarrow> Inr (AMemoryStore (c_keyPrefix config))
      | RedisStoreClass \<Rightarrow>
          (case redisClient config of
             None \<Rightarrow> Inl (Error ''Redis client is required for RedisStore'')
           | Some cl \<Rightarrow> Inr (ARedisStore cl (c_keyPrefix config)))
      | ObjectFunction \<Rightarrow> Inr NotAStore
      | _ \<Rightarrow> Inl (TypeError ''Store is not a constructor''))"

text \<open>
  The limiter \<open>flameLimit\<close> returns: the strategy object with its store. A strategy's
  constructor only stores the object it is given, so a strategy can sit on top of an
  object that is no store (\<open>NoStoreLimiter\<close>); and \<open>new Object(store, ...)\<close> returns its
  first argument, an object without \<open>consume\<close> (\<open>NoStrategyLimiter\<close>).
\<close>

datatype limiter =
    FixedLimiter Strategy "CounterRecord store"
  | SlidingLimiter Strategy "CounterRecord store"
  | TokenLimiter TokenStrategy "TokenBucket store"
  | NoStoreLimiter
  | NoStrategyLimiter

definition counter_store :: "store_object \<Rightarrow> CounterRecord store option" where
  "counter_store s =
     (case s of
        AMemoryStore p \<Rightarrow> Some (MemoryStore p Map.empty)
      | ARedisStore cl p \<Rightarrow> Some (RedisStore p (counters cl))
      | NotAStore \<Rightarrow> None)"

definition bucket_store :: "store_object \<Rightarrow> TokenBucket store option" where
  "bucket_store s =
     (case s of
        AMemoryStore p \<Rightarrow> Some (MemoryStore p Map.empty)
      | ARedisStore cl p \<Rightarrow> Some (RedisStore p (buckets cl))
      | NotAStore \<Rightarrow> None)"

definition new_Strategy :: "js_value \<Rightarrow> store_object \<Rightarrow> Config \<Rightarrow> js_error + limiter" where
  "new_Strategy Strategy st config =
     (let options = \<lparr>opt_limit = Some (c_limit config), opt_windowMs = Some (c_windowMs config)\<rparr>
      in case Strategy of
           FixedWindowClass \<Rightarrow>
             (case counter_store st of
                None \<Rightarrow> Inr NoStoreLimiter
              | Some s \<Rightarrow> Inr (FixedLimiter (FixedWindowStrategy options) s))
         | SlidingWindowClass \<Rightarrow>
             (case counter_store st of
                None \<Rightarrow> Inr NoStoreLimiter
              | Some s \<Rightarrow> Inr (SlidingLimiter (SlidingWindowStrategy options) s))
         | TokenBucketClass \<Rightarrow>
             (case bucket_store st of
                None \<Rightarrow> Inr NoStoreLimiter
              | Some s \<Rightarrow> Inr (TokenLimiter (TokenBucketStrategy options) s))
         | ObjectFunction \<Rightarrow> Inr NoStrategyLimiter
         | _ \<Rightarrow> Inl (TypeError ''Strategy is not a constructor''))"

definition flameLimit :: "FlameOptions \<Rightarrow> js_error + limiter" where
  "flameLimit options =
     (let config = merge_defaults options
      in case STORES (backend config) of
           None \<Rightarrow>
             Inl (Error (''Unknown backend: '' @ backend config @ ''. Use 'memory' or 'redis'.''))
         | Some Store \<Rightarrow>
             (case new_Store Store config of
                Inl e \<Rightarrow> Inl e
              | Inr st \<Rightarrow>
                  (case STRATEGIES (strategy config) of
                     None \<Rightarrow>
                       Inl (Error (''Unknown strategy: '' @ strategy config
                                   @ ''. Use 'fixed', 'sliding', or 'token'.''))
                   | Some Strategy \<Rightarrow> new_Strategy Strategy st config)))"

subsection \<open>A request\<close>

text \<open>
  \<open>strategy.consume(identifier, weight)\<close> as the middleware calls it. Each \<open>consume\<close> does
  nothing but pure arithmetic before its first \<open>await this.store.get(...)\<close>, so over an
  object that is no store the call throws a \<open>TypeError\<close> there and changes nothing.
\<close>

definition consume :: "limiter \<Rightarrow> int \<Rightarrow> string \<Rightarrow> int \<Rightarrow> js_error + Decision \<times> limiter" where
  "consume l now identifier weight =
     (case l of
        FixedLimiter s st \<Rightarrow>
          (let (d, st') = FixedWindow_consume s now st identifier weight
           in Inr (d, FixedLimiter s st'))
      | SlidingLimiter s st \<Rightarrow>
          (let (d, st') = SlidingWindow_consume s now st identifier weight
           in Inr (Decision.truncate d, SlidingLimiter s st'))
      | TokenLimiter s st \<Rightarrow>
          (let (d, st') = TokenBucket_consume s now st identifier weight
           in Inr (d, TokenLimiter s st'))
      | NoStoreLimiter \<Rightarrow> Inl (TypeError ''this.store.get is not a function'')
      | NoStrategyLimiter \<Rightarrow> Inl (TypeError ''strategy.consume is not a function''))"

section \<open>Names for what a call computes on its way\<close>

text \<open>
  The statements below speak about values a \<open>consume\<close> call computes internally: the key
  it uses, the record or bucket it loads (or lazily creates), the refilled bucket. The
  definitions repeat the corresponding lines of the source function.
\<close>

definition window_of :: "'a Strategy_scheme \<Rightarrow> int \<Rightarrow> int" where
  "window_of this now = (now div windowMs this) * windowMs this"

definition window_key :: "string \<Rightarrow> int \<Rightarrow> string" where
  "window_key key windowStart = key @ '':'' @ show_int windowStart"

definition token_key :: "string \<Rightarrow> string" where
  "token_key key = key @ '':token''"

definition loaded_record ::
  "Strategy \<Rightarrow> int \<Rightarrow> CounterRecord store \<Rightarrow> string \<Rightarrow> CounterRecord" where
  "loaded_record this now st key =
     (case store_get now st (window_key key (window_of this now)) of
        None \<Rightarrow> \<lparr>count = 0, resetTime = window_of this now + windowMs this\<rparr>
      | Some r \<Rightarrow> r)"

definition loaded_previousCount ::
  "Strategy \<Rightarrow> int \<Rightarrow> CounterRecord store \<Rightarrow> string \<Rightarrow> int" where
  "loaded_previousCount this now st key =
     (case store_get now st (window_key key (window_of this now - windowMs this)) of
        None \<Rightarrow> 0
      | Some r \<Rightarrow> count r)"

definition loaded_bucket ::
  "TokenStrategy \<Rightarrow> int \<Rightarrow> TokenBucket store \<Rightarrow> string \<Rightarrow> TokenBucket" where
  "loaded_bucket this now st key =
     (case store_get now st (token_key key) of
        None \<Rightarrow> \<lparr>tokens = rat_of_int (limit this), lastRefill = now,
                 bucketResetTime = now + windowMs this\<rparr>
      | Some b \<Rightarrow> b)"

definition refilled :: "TokenStrategy \<Rightarrow> int \<Rightarrow> TokenBucket \<Rightarrow> TokenBucket" where
  "refilled this now b =
     (if now - lastRefill b > 0
      then b\<lparr>tokens := min (rat_of_int (limit this))
                          (tokens b + rat_of_int (now - lastRefill b) * refillRate this),
             lastRefill := now\<rparr>
      else b)"

text \<open>The bucket an admitted request stores: debited, and with a new \<open>resetTime\<close> when it
  ran exactly empty.\<close>

definition debited :: "TokenStrategy \<Rightarrow> int \<Rightarrow> int \<Rightarrow> TokenBucket \<Rightarrow> TokenBucket" where
  "debited this now weight b =
     (let b' = b\<lparr>tokens := tokens b - rat_of_int weight\<rparr>
      in if tokens b' = 0
         then b'\<lparr>bucketResetTime := now + \<lceil>rat_of_int weight / refillRate this\<rceil>\<rparr>
         else b')"

text \<open>
  The raw content of a store under a key: the stored object and its expiry, whether or
  not the expiry has passed. A \<open>MemoryStore\<close> cell always carries an \<open>_expireAt\<close>.
\<close>

fun store_cell :: "'v store \<Rightarrow> string \<Rightarrow> ('v \<times> int option) option" where
  "store_cell (MemoryStore pfx m) key =
     map_option (\<lambda>(v, expireAt). (v, Some expireAt)) (m (pfx @ key))"
| "store_cell (RedisStore pfx c) key = c (pfx @ key)"

fun is_redis :: "'v store \<Rightarrow> bool" where
  "is_redis (MemoryStore pfx m) = False"
| "is_redis (RedisStore pfx c) = True"

section \<open>Example inputs\<close>

text \<open>
  A limiter with \<open>limit = 5\<close> (or 10) and \<open>windowMs = 1000\<close>, identity \<open>u\<close>, and stores as
  earlier admitted requests leave them: a counter of 3 for the window starting at 1000,
  and a bucket emptied at time 0 by an admitted request of weight 10.
\<close>

definition ex_options :: Options where
  "ex_options = \<lparr>opt_limit = Some 5, opt_windowMs = Some 1000\<rparr>"

definition ex_options10 :: Options where
  "ex_options10 = \<lparr>opt_limit = Some 10, opt_windowMs = Some 1000\<rparr>"

definition ex_counter :: CounterRecord where
  "ex_counter = \<lparr>count = 3, resetTime = 2000\<rparr>"

definition ex_counters_memory :: "CounterRecord store" where
  "ex_counters_memory =
     MemoryStore ''flame-limit:'' [''flame-limit:u:1000'' \<mapsto> (ex_counter, 2000)]"

definition ex_empty_memory :: "'v store" where
  "ex_empty_memory = MemoryStore ''flame-limit:'' Map.empty"

definition ex_bucket :: TokenBucket where
  "ex_bucket = \<lparr>tokens = 0, lastRefill = 0, bucketResetTime = 1000\<rparr>"

definition ex_buckets_memory :: "TokenBucket store" where
  "ex_buckets_memory =
     MemoryStore ''flame-limit:'' [''flame-limit:u:token'' \<mapsto> (ex_bucket, 2000)]"

definition ex_buckets_redis :: "TokenBucket store" where
  "ex_buckets_redis =
     RedisStore ''flame-limit:'' [''flame-limit:u:token'' \<mapsto> (ex_bucket, Some 2000)]"

definition ex_counters_full :: "CounterRecord store" where
  "ex_counters_full =
     MemoryStore ''flame-limit:''
       [''flame-limit:u:1000'' \<mapsto> (\<lparr>count = 5, resetTime = 2000\<rparr>, 2000),
        ''flame-limit:u:0'' \<mapsto> (\<lparr>count = 5, resetTime = 1000\<rparr>, 2000)]"

definition ex_counters_previous :: "CounterRecord store" where
  "ex_counters_previous =
     MemoryStore ''flame-limit:''
       [''flame-limit:u:0'' \<mapsto> (\<lparr>count = 5, resetTime = 1000\<rparr>, 2900)]"

definition ex_counters_sliding :: "CounterRecord store" where
  "ex_counters_sliding =
     MemoryStore ''flame-limit:''
       [''flame-limit:u:1000'' \<mapsto> (\<lparr>count = 1, resetTime = 2000\<rparr>, 3200),
        ''flame-limit:u:0'' \<mapsto> (\<lparr>count = 5, resetTime = 1000\<rparr>, 2900)]"

text \<open>
  The rule set \<^verbatim>\<open>{"/api/a": 5, "/api/*": 2}\<close>, an engine that matches a pattern without
  metacharacters wherever it occurs in the path and rejects the pattern \<^verbatim>\<open>(\<close> as malformed,
  and the options object that leaves every field out.
\<close>

definition ex_rules :: "(string \<times> int) list" where
  "ex_rules = [(''/api/a'', 5), (''/api/*'', 2)]"

definition ex_engine :: regexp_engine where
  "ex_engine pattern = (if pattern = ''('' then None else Some (\<lambda>path. sublist pattern path))"

definition default_options :: FlameOptions where
  "default_options =
     \<lparr>o_limit = None, o_windowMs = None, o_backend = None, o_strategy = None,
      o_weightByPath = None, o_weights = None, o_keyPrefix = None, o_redisClient = None\<rparr>"

section \<open>Double-precision rounding\<close>

text \<open>Conditional unfolding and floors of numeral fractions, for evaluating \<open>fl\<close> at a
  given value.\<close>

lemma bit_length_0: "bit_length 0 = 0"
  by (simp add: bit_length.simps)

lemma bit_length_pos: "0 < n \<Longrightarrow> bit_length n = Suc (bit_length (n div 2))"
  by (subst bit_length.simps) simp

lemma floor_rat_numeral: "\<lfloor>numeral a / numeral b :: rat\<rfloor> = numeral a div numeral b"
  by (metis floor_divide_of_int_eq of_int_numeral)

lemma floor_rat_minus_numeral:
  "\<lfloor>- (numeral a / numeral b) :: rat\<rfloor> = - numeral a div numeral b"
  by (metis divide_minus_left floor_divide_of_int_eq of_int_neg_numeral of_int_numeral)

lemma ceiling_rat_numeral: "\<lceil>numeral a / numeral b :: rat\<rceil> = - (- numeral a div numeral b)"
  unfolding ceiling_def floor_rat_minus_numeral by simp

lemma floor_rat_one_numeral: "\<lfloor>1 / numeral b :: rat\<rfloor> = 1 div numeral b"
  by (metis floor_divide_of_int_eq of_int_1 of_int_numeral)

lemma floor_rat_minus_one_numeral: "\<lfloor>- (1 / numeral b) :: rat\<rfloor> = - 1 div numeral b"
  by (metis divide_minus_left floor_divide_of_int_eq of_int_1 of_int_minus of_int_numeral)

lemma ceiling_rat_one_numeral: "\<lceil>1 / numeral b :: rat\<rceil> = - (- 1 div numeral b)"
  unfolding ceiling_def floor_rat_minus_one_numeral by simp

lemmas fl_eval =
  fl_def binary_exponent_def pow2_def round_half_even_def Let_def bit_length_0 bit_length_pos
  floor_rat_numeral floor_rat_minus_numeral ceiling_rat_numeral
  floor_rat_one_numeral floor_rat_minus_one_numeral ceiling_rat_one_numeral

lemma fl_zero [simp]: "fl 0 = 0"
  by (simp add: fl_def)

text \<open>
  Known doubles: \<open>0.1\<close> is \<open>0x3FB999999999999A\<close>, \<open>0.1 + 0.2\<close> is \<open>0.30000000000000004\<close>
  (\<open>0x3FD3333333333334\<close>), and \<open>2^53 + 1\<close> rounds to \<open>2^53\<close> (a tie, to even).
\<close>

lemma fl_examples:
  "fl (1 / 10) = 3602879701896397 / 36028797018963968"
  "fl (fl (1 / 10) + fl (2 / 10)) = 5404319552844596 / 18014398509481984"
  "fl 9007199254740993 = 9007199254740992"
  "fl (- (1 / 10)) = - (3602879701896397 / 36028797018963968)"
  "fl (1 / 2) = 1 / 2"
  by (simp_all add: fl_eval)

text \<open>
  The token-bucket values used as examples further on, computed as the source does: with
  \<open>limit = 10\<close> and \<open>windowMs = 1000\<close> the refill rate is the double nearest to \<open>0.01\<close>;
  50 ms of refill give exactly \<open>0.5\<close> tokens and 200 ms exactly 2, and emptying the bucket
  with weight 10 sets \<open>resetTime\<close> 1000 ms ahead. With \<open>limit = 5\<close>, 50 ms give \<open>0.25\<close>.
\<close>

lemma token_examples_in_doubles:
  "fl (50 * fl (10 / 1000)) = 1 / 2"
  "fl (200 * fl (10 / 1000)) = 2"
  "\<lceil>fl (10 / fl (10 / 1000))\<rceil> = 1000"
  "fl (50 * fl (5 / 1000)) = 1 / 4"
  by (simp_all add: fl_eval)

text \<open>\<open>binary_exponent x\<close> is the integer \<open>e\<close> with \<open>2^e \<le> x < 2^(e+1)\<close>.\<close>

lemma bit_length_bounds:
  "0 < n \<Longrightarrow> 2 ^ (bit_length n - 1) \<le> n \<and> n < 2 ^ bit_length n"
proof (induction n rule: bit_length.induct)
  case (1 n)
  show ?case
  proof (cases "n div 2 = 0")
    case True
    with \<open>0 < n\<close> have "n = 1" by auto
    then show ?thesis by (simp add: bit_length_0 bit_length_pos)
  next
    case False
    then have pos: "0 < n div 2" by simp
    with 1 have ih: "2 ^ (bit_length (n div 2) - 1) \<le> n div 2"
      "n div 2 < 2 ^ bit_length (n div 2)"
      by simp_all
    have k: "0 < bit_length (n div 2)"
      using pos by (simp add: bit_length_pos)
    have eq: "bit_length n = Suc (bit_length (n div 2))"
      using \<open>0 < n\<close> by (rule bit_length_pos)
    have "(2::nat) ^ bit_length (n div 2) = 2 * 2 ^ (bit_length (n div 2) - 1)"
      using k by (cases "bit_length (n div 2)") simp_all
    moreover have "2 * (n div 2) \<le> n" by simp
    ultimately have lower: "2 ^ bit_length (n div 2) \<le> n" using ih(1) by linarith
    have "n < 2 * (n div 2) + 2" by presburger
    with ih(2) have upper: "n < 2 * 2 ^ bit_length (n div 2)" by linarith
    from lower upper show ?thesis by (simp add: eq)
  qed
qed

lemma pow2_nonneg: "pow2 (int k) = 2 ^ k"
  by (simp add: pow2_def)

lemma pow2_neg: "pow2 (- int k) = 1 / 2 ^ k"
proof (cases "k = 0")
  case True
  then show ?thesis by (simp add: pow2_def)
next
  case False
  then have "\<not> 0 \<le> - int k" by simp
  then have "pow2 (- int k) = 1 / 2 ^ nat (- (- int k))"
    unfolding pow2_def by (rule if_not_P)
  then show ?thesis by simp
qed

lemma binary_exponent_bounds:
  assumes "0 < x"
  shows "pow2 (binary_exponent x) \<le> x \<and> x < pow2 (binary_exponent x + 1)"
proof (cases "1 \<le> x")
  case True
  define n where "n = nat \<lfloor>x\<rfloor>"
  define b where "b = bit_length n"
  from True have n: "0 < n" "rat_of_int (int n) \<le> x" "x < rat_of_int (int n) + 1"
    by (simp_all add: n_def le_floor_iff) linarith+
  from bit_length_bounds [OF n(1)] have bb: "2 ^ (b - 1) \<le> n" "n < 2 ^ b"
    by (simp_all add: b_def)
  have bpos: "0 < b" using bb(2) n(1) by (cases b) simp_all
  have e: "binary_exponent x = int (b - 1)"
    using True bpos by (simp add: binary_exponent_def n_def b_def)
  have e1: "binary_exponent x + 1 = int b"
    using e bpos by simp
  have "(2::rat) ^ (b - 1) \<le> rat_of_int (int n)"
    using bb(1) by (metis of_int_of_nat_eq of_nat_le_iff of_nat_numeral of_nat_power)
  with n(2) have lo: "pow2 (binary_exponent x) \<le> x"
    unfolding e pow2_nonneg by linarith
  have "int n + 1 \<le> 2 ^ b" using bb(2) by (metis Suc_leI of_nat_Suc of_nat_le_iff of_nat_numeral of_nat_power add.commute plus_1_eq_Suc)
  then have "rat_of_int (int n + 1) \<le> rat_of_int (2 ^ b)" by (simp only: of_int_le_iff)
  then have "rat_of_int (int n) + 1 \<le> 2 ^ b" by simp
  with n(3) have hi: "x < pow2 (binary_exponent x + 1)"
    unfolding e1 pow2_nonneg by linarith
  from lo hi show ?thesis ..
next
  case False
  with assms have x: "0 < x" "x < 1" by simp_all
  define c where "c = \<lceil>1 / x\<rceil>"
  define n where "n = nat (c - 1)"
  define b where "b = bit_length n"
  have y: "1 < 1 / x" using x by simp
  then have c2: "2 \<le> c" unfolding c_def by (simp add: le_ceiling_iff)
  have n: "0 < n" "int n = c - 1" using c2 by (simp_all add: n_def)
  have cy: "1 / x \<le> rat_of_int c" "rat_of_int c - 1 < 1 / x"
    unfolding c_def by (simp_all add: le_of_int_ceiling) linarith
  from bit_length_bounds [OF n(1)] have bb: "2 ^ (b - 1) \<le> n" "n < 2 ^ b"
    by (simp_all add: b_def)
  have bpos: "0 < b" using bb(2) n(1) by (cases b) simp_all
  have e: "binary_exponent x = - int b"
    using False by (simp add: binary_exponent_def c_def n_def b_def)
  have e1: "binary_exponent x + 1 = - int (b - 1)"
    using e bpos by simp
  have "int n + 1 \<le> 2 ^ b" using bb(2) by (metis Suc_leI of_nat_Suc of_nat_le_iff of_nat_numeral of_nat_power add.commute plus_1_eq_Suc)
  then have "c \<le> 2 ^ b" using n(2) by simp
  then have "rat_of_int c \<le> rat_of_int (2 ^ b)" by (simp only: of_int_le_iff)
  then have "rat_of_int c \<le> 2 ^ b" by simp
  with cy(1) have "1 / x \<le> 2 ^ b" by linarith
  then have "1 \<le> 2 ^ b * x" using x(1) by (simp add: pos_divide_le_eq)
  then have lo: "pow2 (binary_exponent x) \<le> x"
    unfolding e pow2_neg by (simp add: pos_divide_le_eq mult.commute)
  have "int (2 ^ (b - 1)) \<le> int n" using bb(1) by (simp only: of_nat_le_iff)
  then have "rat_of_int (2 ^ (b - 1)) \<le> rat_of_int c - 1" using n(2) by (metis of_int_1 of_int_diff of_int_le_iff of_int_of_nat_eq of_nat_numeral of_nat_power of_int_numeral of_int_power)
  then have "(2::rat) ^ (b - 1) \<le> rat_of_int c - 1" by simp
  with cy(2) have "2 ^ (b - 1) < 1 / x" by linarith
  then have "2 ^ (b - 1) * x < 1" using x(1) by (simp add: pos_less_divide_eq)
  then have hi: "x < pow2 (binary_exponent x + 1)"
    unfolding e1 pow2_neg by (simp add: pos_less_divide_eq mult.commute)
  from lo hi show ?thesis ..
qed

section \<open>Keys are rendered injectively\<close>

text \<open>Conditional unfolding, for evaluating a rendering at a given number.\<close>

lemma show_nat_digit: "n < 10 \<Longrightarrow> show_nat n = [digit_char n]"
  by (subst show_nat.simps) simp

lemma show_nat_more:
  "\<not> n < 10 \<Longrightarrow> show_nat n = show_nat (n div 10) @ [digit_char (n mod 10)]"
  by (subst show_nat.simps) simp

lemma show_int_nonneg: "0 \<le> i \<Longrightarrow> show_int i = show_nat (nat i)"
  by (simp add: show_int_def)

lemma show_int_neg: "i < 0 \<Longrightarrow> show_int i = CHR ''-'' # show_nat (nat (- i))"
  by (simp add: show_int_def)

lemmas key_eval =
  window_key_def window_of_def token_key_def show_int_nonneg show_int_neg
  show_nat_digit show_nat_more digit_char_def









section \<open>Store laws\<close>


lemma store_cell_set_same:
  "ttl \<noteq> 0 \<Longrightarrow>
   store_cell (store_set now st k v ttl) k =
     Some (v, Some (if is_redis st then now + 1000 * \<lceil>rat_of_int ttl / 1000\<rceil> else now + ttl))"
  by (cases st) (simp_all add: Let_def redis_SETEX_def)

lemma store_get_del: "store_get now (store_del st k) k = None"
  by (cases st) (simp_all add: Let_def redis_DEL_def redis_GET_def)

lemma store_get_del_other:
  "k \<noteq> k' \<Longrightarrow> store_get now (store_del st k) k' = store_get now st k'"
  by (cases st) (simp_all add: Let_def redis_DEL_def redis_GET_def)

lemma store_get_del_None:
  "store_get now st k = None \<Longrightarrow> store_get now (store_del st k') k = None"
  by (cases st) (simp_all add: Let_def redis_DEL_def redis_GET_def)


lemmas ex_eval =
  ex_options_def ex_options10_def ex_counter_def ex_counters_memory_def ex_empty_memory_def
  ex_bucket_def ex_buckets_memory_def ex_buckets_redis_def ex_counters_full_def
  ex_counters_sliding_def ex_counters_previous_def
  FixedWindowStrategy_def SlidingWindowStrategy_def TokenBucketStrategy_def or_default_def

section \<open>The consume functions in terms of the named values\<close>

lemma FixedWindow_consume_eq:
  "FixedWindow_consume this now st key weight =
     (let rcd = loaded_record this now st key;
          newCount = count rcd + weight;
          limited = (newCount > limit this)
      in (\<lparr>limited = limited, remaining = max 0 (limit this - newCount),
           resetTimeD = resetTime rcd, consumed = (if limited then 0 else weight)\<rparr>,
          if \<not> limited
          then store_set now st (window_key key (window_of this now))
                 (rcd\<lparr>count := newCount\<rparr>) (windowMs this)
          else st))"
  unfolding FixedWindow_consume_def loaded_record_def window_key_def window_of_def Let_def
  by (rule refl)

lemma SlidingWindow_consume_eq:
  "SlidingWindow_consume this now st key weight =
     (let rcd = loaded_record this now st key;
          effectivePreviousCount =
            \<lfloor>fl (rat_of_int (loaded_previousCount this now st key)
                 * fl (1 - fl (rat_of_int (now - window_of this now)
                               / rat_of_int (windowMs this))))\<rfloor>;
          newCount = count rcd + weight;
          limited = (effectivePreviousCount + newCount > limit this)
      in (\<lparr>limited = limited,
           remaining = max 0 (limit this - (effectivePreviousCount + newCount)),
           resetTimeD = resetTime rcd, consumed = (if limited then 0 else weight),
           currentCount = (if \<not> limited then newCount else count rcd),
           previousCount = effectivePreviousCount\<rparr>,
          if \<not> limited
          then store_set now st (window_key key (window_of this now))
                 (rcd\<lparr>count := newCount\<rparr>) (windowMs this * 2)
          else st))"
  unfolding SlidingWindow_consume_def loaded_record_def loaded_previousCount_def
    window_key_def window_of_def Let_def
  by simp

lemma TokenBucket_consume_eq:
  "TokenBucket_consume this now st key weight =
     (let b1 = refilled this now (loaded_bucket this now st key);
          limited = (tokens b1 < rat_of_int weight);
          st1 = assign_fetched st (token_key key) b1
      in (\<lparr>limited = limited, remaining = \<lfloor>max 0 (tokens b1 - rat_of_int weight)\<rfloor>,
           resetTimeD = (if limited
                         then now + \<lceil>(rat_of_int weight - tokens b1) / refillRate this\<rceil>
                         else bucketResetTime (debited this now weight b1)),
           consumed = (if limited then 0 else weight)\<rparr>,
          if \<not> limited
          then store_set now st1 (token_key key) (debited this now weight b1) (windowMs this * 2)
          else st1))"
  unfolding TokenBucket_consume_def loaded_bucket_def refilled_def debited_def token_key_def Let_def
  by simp

section \<open>Assignments to a fetched object\<close>




section \<open>Rejections and the stored state\<close>

text \<open>
  C1: after a successful consumption the stored count (or the consumed tokens) never
  exceeds the limit, and a consume that returns \<open>limited = true\<close> leaves the stored
  state of the identity unchanged. The token bucket over a \<open>MemoryStore\<close> breaks the second
  part. With limit 10 and a window of 1000 ms, an admitted request of weight 10 at time 0
  stores the bucket \<open>tokens = 0, lastRefill = 0\<close>. A request of weight 1 at time 50 is
  rejected, and yet the stored bucket now reads \<open>tokens = 1/2, lastRefill = 50\<close>: the
  refill step assigned to the fields of the object \<open>get\<close> had returned, which is the
  object in the map. The cell's \<open>_expireAt\<close> stays at 2000, since \<open>set\<close> was not called.
\<close>

theorem token_reject_changes_memory_store:
  "\<not> limited (fst (TokenBucket_consume (TokenBucketStrategy ex_options10) 0
                      ex_empty_memory ''u'' 10))
   \<and> snd (TokenBucket_consume (TokenBucketStrategy ex_options10) 0 ex_empty_memory ''u'' 10)
       = ex_buckets_memory
   \<and> store_cell ex_buckets_memory ''u:token''
       = Some (\<lparr>tokens = 0, lastRefill = 0, bucketResetTime = 1000\<rparr>, Some 2000)
   \<and> limited (fst (TokenBucket_consume (TokenBucketStrategy ex_options10) 50
                     ex_buckets_memory ''u'' 1))
   \<and> store_cell (snd (TokenBucket_consume (TokenBucketStrategy ex_options10) 50
                        ex_buckets_memory ''u'' 1)) ''u:token''
       = Some (\<lparr>tokens = 1 / 2, lastRefill = 50, bucketResetTime = 1000\<rparr>, Some 2000)
   \<and> snd (TokenBucket_consume (TokenBucketStrategy ex_options10) 50 ex_buckets_memory ''u'' 1)
       \<noteq> ex_buckets_memory"
proof -
  let ?t = "TokenBucketStrategy ex_options10"
  have admitted: "\<not> limited (fst (TokenBucket_consume ?t 0 ex_empty_memory ''u'' 10))"
    by (simp add: TokenBucket_consume_def Let_def ex_eval key_eval)
  have first: "snd (TokenBucket_consume ?t 0 ex_empty_memory ''u'' 10) = ex_buckets_memory"
    by (simp add: TokenBucket_consume_def Let_def ex_eval key_eval)
  have before: "store_cell ex_buckets_memory ''u:token''
                  = Some (\<lparr>tokens = 0, lastRefill = 0, bucketResetTime = 1000\<rparr>, Some 2000)"
    by (simp add: ex_eval)
  have rejected: "limited (fst (TokenBucket_consume ?t 50 ex_buckets_memory ''u'' 1))"
    by (simp add: TokenBucket_consume_def Let_def ex_eval key_eval)
  have after: "store_cell (snd (TokenBucket_consume ?t 50 ex_buckets_memory ''u'' 1)) ''u:token''
                 = Some (\<lparr>tokens = 1 / 2, lastRefill = 50, bucketResetTime = 1000\<rparr>, Some 2000)"
    by (simp add: TokenBucket_consume_def Let_def ex_eval key_eval)
  have changed: "snd (TokenBucket_consume ?t 50 ex_buckets_memory ''u'' 1) \<noteq> ex_buckets_memory"
  proof
    assume "snd (TokenBucket_consume ?t 50 ex_buckets_memory ''u'' 1) = ex_buckets_memory"
    with after before show False by simp
  qed
  from admitted first before rejected after changed show ?thesis by blast
qed

text \<open>
  What holds nonetheless. A rejection by the fixed or the sliding window leaves the store
  as it was, on either backend; so does a rejection by the token bucket on Redis (see
  \<open>assign_fetched_no_alias\<close>). After an admission the fixed window's stored count is at most
  the limit and the bucket's tokens are not negative.
\<close>

lemma window_reject_keeps_store:
  "limited (fst (FixedWindow_consume this now st key w))
     \<Longrightarrow> snd (FixedWindow_consume this now st key w) = st"
  "limited (fst (SlidingWindow_consume this now st key w))
     \<Longrightarrow> snd (SlidingWindow_consume this now st key w) = st"
  by (simp_all add: FixedWindow_consume_eq SlidingWindow_consume_eq Let_def split: if_splits)

lemma token_reject_keeps_redis:
  "limited (fst (TokenBucket_consume this now (RedisStore pfx c) key w))
     \<Longrightarrow> snd (TokenBucket_consume this now (RedisStore pfx c) key w) = RedisStore pfx c"
  by (simp add: TokenBucket_consume_eq Let_def split: if_splits)

lemma fixed_admit_within_limit:
  "\<not> limited (fst (FixedWindow_consume this now st key w)) \<Longrightarrow> windowMs this \<noteq> 0
     \<Longrightarrow> map_option (count \<circ> fst)
           (store_cell (snd (FixedWindow_consume this now st key w))
              (window_key key (window_of this now)))
         = Some (count (loaded_record this now st key) + w)
       \<and> count (loaded_record this now st key) + w \<le> limit this"
  by (simp add: FixedWindow_consume_eq Let_def store_cell_set_same split: if_splits)

lemma token_admit_nonnegative:
  "\<not> limited (fst (TokenBucket_consume this now st key w))
     \<Longrightarrow> 0 \<le> tokens (debited this now w (refilled this now (loaded_bucket this now st key)))"
  by (simp add: TokenBucket_consume_eq debited_def Let_def split: if_splits)

section \<open>The memory store and expiry\<close>

text \<open>
  C2 as stated: \<open>MemoryStore.get\<close> never returns a logically expired entry, even when the
  sweep has not yet removed it. \<open>get\<close> returns what the map holds and never looks at
  \<open>_expireAt\<close>: an entry set at time 0 with a TTL of 1000 ms is still returned at time
  5000 when no sweep has run in between.
\<close>

theorem MemoryStore_get_expired_counterexample:
  "(0::int) + 1000 \<le> 5000
   \<and> store_get 5000 (store_set 0 ex_empty_memory ''u:0'' ex_counter 1000) ''u:0''
       = Some ex_counter"
  by (simp add: ex_empty_memory_def)

text \<open>
  C2 as amended: \<open>MemoryStore.get\<close> returns the entry the map holds for the key, whether
  or not its TTL has elapsed; a logically expired entry is absent from \<open>get\<close> only once a
  sweep (\<open>gc\<close>) run at or after its expiry instant has removed it, and a sweep keeps the
  entries that have not expired.
\<close>

theorem MemoryStore_get_after_sweep:
  "store_get t' (store_set t (MemoryStore pfx m) key v ttl) key = Some v
   \<and> (m (pfx @ key) = Some (v', e)
      \<longrightarrow> store_get t' (MemoryStore pfx m) key = Some v'
          \<and> store_get t' (MemoryStore pfx (gc t m)) key
              = (if e \<noteq> 0 \<and> e \<le> t then None else Some v'))"
  by (simp add: gc_def)

theorem MemoryStore_get_after_sweep_witness:
  "[''flame-limit:u:1000'' \<mapsto> (ex_counter, 2000::int)] (''flame-limit:'' @ ''u:1000'')
     = Some (ex_counter, 2000)
   \<and> store_get 2500 (MemoryStore ''flame-limit:''
                        [''flame-limit:u:1000'' \<mapsto> (ex_counter, 2000)]) ''u:1000''
       = Some ex_counter
   \<and> store_get 2500 (MemoryStore ''flame-limit:''
                        (gc 2400 [''flame-limit:u:1000'' \<mapsto> (ex_counter, 2000)])) ''u:1000''
       = None"
proof -
  have h: "[''flame-limit:u:1000'' \<mapsto> (ex_counter, 2000::int)] (''flame-limit:'' @ ''u:1000'')
             = Some (ex_counter, 2000)"
    by simp
  from h MemoryStore_get_after_sweep [where m = "[''flame-limit:u:1000'' \<mapsto> (ex_counter, 2000)]"
      and pfx = "''flame-limit:''" and key = "''u:1000''" and v' = ex_counter and e = 2000
      and t = 2400 and t' = 2500]
  show ?thesis by simp
qed

section \<open>Fixed window: what a rejection reports\<close>

text \<open>
  C3 as stated: a fixed-window consume that finds \<open>record.count + w > limit\<close> rejects with
  \<open>consumed = 0\<close> and \<open>remaining = max(0, limit - record.count)\<close>, the remaining quota
  before the rejected request. The code computes \<open>remaining\<close> from \<open>newCount\<close> before it
  tests the limit: with a stored count of 3, a limit of 5 and a weight of 5 the request is
  rejected with \<open>remaining = 0\<close>, while \<open>max(0, limit - record.count)\<close> is 2.
\<close>

theorem fixed_reject_remaining_counterexample:
  "count (loaded_record (FixedWindowStrategy ex_options) 1500 ex_counters_memory ''u'') + 5
     > limit (FixedWindowStrategy ex_options)
   \<and> limited (fst (FixedWindow_consume (FixedWindowStrategy ex_options) 1500
                     ex_counters_memory ''u'' 5))
   \<and> remaining (fst (FixedWindow_consume (FixedWindowStrategy ex_options) 1500
                        ex_counters_memory ''u'' 5)) = 0
   \<and> max 0 (limit (FixedWindowStrategy ex_options)
             - count (loaded_record (FixedWindowStrategy ex_options) 1500 ex_counters_memory ''u''))
       = 2"
  by (simp add: FixedWindow_consume_def loaded_record_def Let_def ex_eval key_eval)

text \<open>
  C3 as amended: a fixed-window consume that finds \<open>record.count + w > limit\<close> rejects with
  \<open>consumed = 0\<close> and \<open>remaining = max(0, limit - (record.count + w))\<close>, which is 0: the
  returned \<open>remaining\<close> reflects the count the request would have produced. The store is
  left as it was.
\<close>

theorem fixed_reject_remaining:
  assumes "count (loaded_record (FixedWindowStrategy options) now st key) + weight
             > limit (FixedWindowStrategy options)"
  shows "limited (fst (FixedWindow_consume (FixedWindowStrategy options) now st key weight))
         \<and> consumed (fst (FixedWindow_consume (FixedWindowStrategy options) now st key weight)) = 0
         \<and> remaining (fst (FixedWindow_consume (FixedWindowStrategy options) now st key weight))
             = max 0 (limit (FixedWindowStrategy options)
                      - (count (loaded_record (FixedWindowStrategy options) now st key) + weight))
         \<and> remaining (fst (FixedWindow_consume (FixedWindowStrategy options) now st key weight)) = 0
         \<and> snd (FixedWindow_consume (FixedWindowStrategy options) now st key weight) = st"
  using assms by (simp add: FixedWindow_consume_eq Let_def)

theorem fixed_reject_remaining_witness:
  "count (loaded_record (FixedWindowStrategy ex_options) 1500 ex_counters_memory ''u'') + 5
     > limit (FixedWindowStrategy ex_options)
   \<and> limited (fst (FixedWindow_consume (FixedWindowStrategy ex_options) 1500
                     ex_counters_memory ''u'' 5))
   \<and> consumed (fst (FixedWindow_consume (FixedWindowStrategy ex_options) 1500
                       ex_counters_memory ''u'' 5)) = 0
   \<and> remaining (fst (FixedWindow_consume (FixedWindowStrategy ex_options) 1500
                        ex_counters_memory ''u'' 5)) = 0
   \<and> snd (FixedWindow_consume (FixedWindowStrategy ex_options) 1500 ex_counters_memory ''u'' 5)
       = ex_counters_memory"
proof -
  have h: "count (loaded_record (FixedWindowStrategy ex_options) 1500 ex_counters_memory ''u'') + 5
             > limit (FixedWindowStrategy ex_options)"
    by (simp add: loaded_record_def ex_eval key_eval)
  from h fixed_reject_remaining [OF h] show ?thesis by blast
qed

section \<open>Token bucket: what a rejected request leaves in the store\<close>




section \<open>The decision record\<close>

text \<open>
  C5. For all three strategies and every consume call, the returned decision has
  \<open>consumed = 0\<close> whenever \<open>limited\<close> is true, and \<open>consumed = weight\<close> whenever
  \<open>limited\<close> is false.
\<close>

theorem consumed_zero_or_weight:
  "(limited (fst (FixedWindow_consume (FixedWindowStrategy options) now st key weight))
      \<longrightarrow> consumed (fst (FixedWindow_consume (FixedWindowStrategy options) now st key weight)) = 0)
   \<and> (\<not> limited (fst (FixedWindow_consume (FixedWindowStrategy options) now st key weight))
      \<longrightarrow> consumed (fst (FixedWindow_consume (FixedWindowStrategy options) now st key weight))
          = weight)
   \<and> (limited (fst (SlidingWindow_consume (SlidingWindowStrategy options) now st key weight))
      \<longrightarrow> consumed (fst (SlidingWindow_consume (SlidingWindowStrategy options) now st key weight))
          = 0)
   \<and> (\<not> limited (fst (SlidingWindow_consume (SlidingWindowStrategy options) now st key weight))
      \<longrightarrow> consumed (fst (SlidingWindow_consume (SlidingWindowStrategy options) now st key weight))
          = weight)
   \<and> (limited (fst (TokenBucket_consume (TokenBucketStrategy options) now bst key weight))
      \<longrightarrow> consumed (fst (TokenBucket_consume (TokenBucketStrategy options) now bst key weight)) = 0)
   \<and> (\<not> limited (fst (TokenBucket_consume (TokenBucketStrategy options) now bst key weight))
      \<longrightarrow> consumed (fst (TokenBucket_consume (TokenBucketStrategy options) now bst key weight))
          = weight)"
  by (simp add: FixedWindow_consume_def SlidingWindow_consume_def TokenBucket_consume_def Let_def)

text \<open>
  With the counter at 3 of 5, the fixed window rejects a request of weight 3 and the
  sliding window admits one of weight 1; the bucket emptied at time 0 rejects a request
  of weight 3 at time 50.
\<close>

theorem consumed_zero_or_weight_witness:
  "limited (fst (FixedWindow_consume (FixedWindowStrategy ex_options) 1500
                   ex_counters_memory ''u'' 3))
   \<and> consumed (fst (FixedWindow_consume (FixedWindowStrategy ex_options) 1500
                       ex_counters_memory ''u'' 3)) = 0
   \<and> \<not> limited (fst (SlidingWindow_consume (SlidingWindowStrategy ex_options) 1500
                        ex_counters_memory ''u'' 1))
   \<and> consumed (fst (SlidingWindow_consume (SlidingWindowStrategy ex_options) 1500
                       ex_counters_memory ''u'' 1)) = 1
   \<and> limited (fst (TokenBucket_consume (TokenBucketStrategy ex_options) 50
                     ex_buckets_memory ''u'' 3))
   \<and> consumed (fst (TokenBucket_consume (TokenBucketStrategy ex_options) 50
                       ex_buckets_memory ''u'' 3)) = 0"
proof -
  have f: "limited (fst (FixedWindow_consume (FixedWindowStrategy ex_options) 1500
                           ex_counters_memory ''u'' 3))"
    by (simp add: FixedWindow_consume_def Let_def ex_eval key_eval)
  have s: "\<not> limited (fst (SlidingWindow_consume (SlidingWindowStrategy ex_options) 1500
                             ex_counters_memory ''u'' 1))"
    by (simp add: SlidingWindow_consume_def Let_def ex_eval key_eval)
  have t: "limited (fst (TokenBucket_consume (TokenBucketStrategy ex_options) 50
                           ex_buckets_memory ''u'' 3))"
    by (simp add: TokenBucket_consume_def Let_def ex_eval key_eval)
  have a: "limited (fst (FixedWindow_consume (FixedWindowStrategy ex_options) 1500
                           ex_counters_memory ''u'' 3))
           \<longrightarrow> consumed (fst (FixedWindow_consume (FixedWindowStrategy ex_options) 1500
                                 ex_counters_memory ''u'' 3)) = 0"
    using consumed_zero_or_weight [of ex_options 1500 ex_counters_memory "''u''" 3] by blast
  have b: "\<not> limited (fst (SlidingWindow_consume (SlidingWindowStrategy ex_options) 1500
                             ex_counters_memory ''u'' 1))
           \<longrightarrow> consumed (fst (SlidingWindow_consume (SlidingWindowStrategy ex_options) 1500
                                 ex_counters_memory ''u'' 1)) = 1"
    using consumed_zero_or_weight [of ex_options 1500 ex_counters_memory "''u''" 1] by blast
  have c: "limited (fst (TokenBucket_consume (TokenBucketStrategy ex_options) 50
                           ex_buckets_memory ''u'' 3))
           \<longrightarrow> consumed (fst (TokenBucket_consume (TokenBucketStrategy ex_options) 50
                                 ex_buckets_memory ''u'' 3)) = 0"
    using consumed_zero_or_weight [where options = ex_options and now = 50 and key = "''u''"
        and weight = 3 and bst = ex_buckets_memory] by blast
  from f s t a b c show ?thesis by blast
qed

text \<open>
  C10. For all three strategies, whenever consume returns \<open>limited = true\<close> it also
  returns \<open>remaining = 0\<close>: \<open>remaining\<close> is computed from the count after the debit
  (\<open>count + weight\<close>, or \<open>tokens - weight\<close>) clamped at zero.
\<close>

theorem limited_remaining_zero:
  "(limited (fst (FixedWindow_consume (FixedWindowStrategy options) now st key weight))
      \<longrightarrow> remaining (fst (FixedWindow_consume (FixedWindowStrategy options) now st key weight))
          = 0)
   \<and> (limited (fst (SlidingWindow_consume (SlidingWindowStrategy options) now st key weight))
      \<longrightarrow> remaining (fst (SlidingWindow_consume (SlidingWindowStrategy options) now st key weight))
          = 0)
   \<and> (limited (fst (TokenBucket_consume (TokenBucketStrategy options) now bst key weight))
      \<longrightarrow> remaining (fst (TokenBucket_consume (TokenBucketStrategy options) now bst key weight))
          = 0)"
proof (intro conjI impI)
  assume "limited (fst (FixedWindow_consume (FixedWindowStrategy options) now st key weight))"
  then show "remaining (fst (FixedWindow_consume (FixedWindowStrategy options) now st key weight))
             = 0"
    by (simp add: FixedWindow_consume_def Let_def)
next
  assume "limited (fst (SlidingWindow_consume (SlidingWindowStrategy options) now st key weight))"
  then show "remaining (fst (SlidingWindow_consume (SlidingWindowStrategy options) now st key
                               weight)) = 0"
    by (simp add: SlidingWindow_consume_def Let_def)
next
  assume "limited (fst (TokenBucket_consume (TokenBucketStrategy options) now bst key weight))"
  then show "remaining (fst (TokenBucket_consume (TokenBucketStrategy options) now bst key weight))
             = 0"
    by (simp add: TokenBucket_consume_def Let_def max_def)
qed

theorem limited_remaining_zero_witness:
  "limited (fst (FixedWindow_consume (FixedWindowStrategy ex_options) 1500
                   ex_counters_memory ''u'' 4))
   \<and> remaining (fst (FixedWindow_consume (FixedWindowStrategy ex_options) 1500
                        ex_counters_memory ''u'' 4)) = 0
   \<and> limited (fst (SlidingWindow_consume (SlidingWindowStrategy ex_options) 1500
                     ex_counters_memory ''u'' 4))
   \<and> remaining (fst (SlidingWindow_consume (SlidingWindowStrategy ex_options) 1500
                        ex_counters_memory ''u'' 4)) = 0
   \<and> limited (fst (TokenBucket_consume (TokenBucketStrategy ex_options10) 50
                     ex_buckets_redis ''u'' 1))
   \<and> remaining (fst (TokenBucket_consume (TokenBucketStrategy ex_options10) 50
                        ex_buckets_redis ''u'' 1)) = 0"
proof -
  have f: "limited (fst (FixedWindow_consume (FixedWindowStrategy ex_options) 1500
                           ex_counters_memory ''u'' 4))"
    by (simp add: FixedWindow_consume_def Let_def ex_eval key_eval)
  have s: "limited (fst (SlidingWindow_consume (SlidingWindowStrategy ex_options) 1500
                           ex_counters_memory ''u'' 4))"
    by (simp add: SlidingWindow_consume_def Let_def ex_eval key_eval)
  have t: "limited (fst (TokenBucket_consume (TokenBucketStrategy ex_options10) 50
                           ex_buckets_redis ''u'' 1))"
    by (simp add: TokenBucket_consume_def Let_def ex_eval key_eval redis_GET_def)
  from f s t
    limited_remaining_zero [where options = ex_options and now = 1500
      and st = ex_counters_memory and key = "''u''" and weight = 4]
    limited_remaining_zero [where options = ex_options10 and now = 50
      and bst = ex_buckets_redis and key = "''u''" and weight = 1]
  show ?thesis by blast
qed

section \<open>Sliding window\<close>




section \<open>Path weights\<close>

text \<open>
  C7. With the rule set \<^verbatim>\<open>{"/api/a": 5, "/api/*": 2}\<close>, declared in that order, path-weight
  resolution returns 5 for \<open>/api/a\<close>, 2 for \<open>/api/b\<close> and 1 for any path no rule matches; a
  pattern that is neither an exact match nor a \<open>*\<close>-suffixed prefix and fails to compile as
  a regular expression matches no path and raises nothing. Both \<open>getPathWeight\<close> functions
  of the repository are covered. For \<open>/api/b\<close> the first rule is tried through the
  runtime's regular-expression engine, so that case is stated for every engine in which
  the expression \<open>/api/a\<close> does not match \<open>/api/b\<close>.
\<close>

theorem path_weight_resolution:
  "getPathWeight engine True (Some ex_rules) ''/api/a'' = 5
   \<and> getPathWeight_basic engine (Some ex_rules) ''/api/a'' = 5
   \<and> (\<not> (case engine ''/api/a'' of None \<Rightarrow> False | Some test \<Rightarrow> test ''/api/b'') \<longrightarrow>
        getPathWeight engine True (Some ex_rules) ''/api/b'' = 2
        \<and> getPathWeight_basic engine (Some ex_rules) ''/api/b'' = 2)
   \<and> (\<forall>path. \<not> patternMatches engine ''/api/a'' path \<and> \<not> patternMatches engine ''/api/*'' path \<longrightarrow>
          getPathWeight engine True (Some ex_rules) path = 1
          \<and> getPathWeight_basic engine (Some ex_rules) path = 1)
   \<and> (\<forall>pattern path. pattern \<noteq> path \<and> \<not> endsWith_star pattern \<and> engine pattern = None \<longrightarrow>
          \<not> patternMatches engine pattern path)"
proof (intro conjI allI impI)
  show "getPathWeight engine True (Some ex_rules) ''/api/a'' = 5"
    by (simp add: getPathWeight_def ex_rules_def patternMatches_def)
  show "getPathWeight_basic engine (Some ex_rules) ''/api/a'' = 5"
    by (simp add: getPathWeight_basic_def ex_rules_def patternMatches_def)
next
  assume no: "\<not> (case engine ''/api/a'' of None \<Rightarrow> False | Some test \<Rightarrow> test ''/api/b'')"
  have first: "\<not> patternMatches engine ''/api/a'' ''/api/b''"
    using no by (simp add: patternMatches_def endsWith_star_def)
  have second: "patternMatches engine ''/api/*'' ''/api/b''"
    by (simp add: patternMatches_def endsWith_star_def)
  from first second show "getPathWeight engine True (Some ex_rules) ''/api/b'' = 2"
    by (simp add: getPathWeight_def ex_rules_def)
  from first second show "getPathWeight_basic engine (Some ex_rules) ''/api/b'' = 2"
    by (simp add: getPathWeight_basic_def ex_rules_def)
next
  fix path
  assume "\<not> patternMatches engine ''/api/a'' path \<and> \<not> patternMatches engine ''/api/*'' path"
  then show "getPathWeight engine True (Some ex_rules) path = 1"
    and "getPathWeight_basic engine (Some ex_rules) path = 1"
    by (simp_all add: getPathWeight_def getPathWeight_basic_def ex_rules_def)
next
  fix pattern path
  assume "pattern \<noteq> path \<and> \<not> endsWith_star pattern \<and> engine pattern = None"
  then show "\<not> patternMatches engine pattern path"
    by (simp add: patternMatches_def)
qed

text \<open>
  With an engine that finds a plain pattern anywhere in the path: \<open>/api/b\<close> costs 2, the
  path \<open>/home\<close> is matched by no rule and costs 1, and the malformed pattern \<^verbatim>\<open>(\<close> matches
  nothing.
\<close>

theorem path_weight_resolution_witness:
  "\<not> (case ex_engine ''/api/a'' of None \<Rightarrow> False | Some test \<Rightarrow> test ''/api/b'')
   \<and> getPathWeight ex_engine True (Some ex_rules) ''/api/b'' = 2
   \<and> getPathWeight_basic ex_engine (Some ex_rules) ''/api/b'' = 2
   \<and> \<not> patternMatches ex_engine ''/api/a'' ''/home''
   \<and> \<not> patternMatches ex_engine ''/api/*'' ''/home''
   \<and> getPathWeight ex_engine True (Some ex_rules) ''/home'' = 1
   \<and> getPathWeight_basic ex_engine (Some ex_rules) ''/home'' = 1
   \<and> ''('' \<noteq> ''/home'' \<and> \<not> endsWith_star ''('' \<and> ex_engine ''('' = None
   \<and> \<not> patternMatches ex_engine ''('' ''/home''"
proof -
  have e: "\<not> (case ex_engine ''/api/a'' of None \<Rightarrow> False | Some test \<Rightarrow> test ''/api/b'')"
    by (simp add: ex_engine_def sublist_code)
  have h1: "\<not> patternMatches ex_engine ''/api/a'' ''/home''"
    by (simp add: patternMatches_def endsWith_star_def ex_engine_def sublist_code)
  have h2: "\<not> patternMatches ex_engine ''/api/*'' ''/home''"
    by (simp add: patternMatches_def endsWith_star_def)
  have m: "''('' \<noteq> ''/home''" "\<not> endsWith_star ''(''" "ex_engine ''('' = None"
    by (simp_all add: endsWith_star_def ex_engine_def)
  from e h1 h2 m path_weight_resolution [of ex_engine] show ?thesis by blast
qed

section \<open>Construction errors\<close>

text \<open>
  C8: constructing the limiter with an unrecognised strategy or backend name, or with the
  Redis backend and no client, raises an error at construction time, and a well-formed
  configuration meets no configuration error at request time. The guard
  \<open>if (!Store) throw\<close> tests the result of \<open>STORES[config.backend]\<close>, and for the name
  \<open>constructor\<close> that read yields the inherited function \<open>Object\<close>: the guard passes,
  \<open>new Object(keyPrefix)\<close> succeeds, and \<open>flameLimit\<close> returns a middleware whose every
  request fails with a \<open>TypeError\<close>. The same happens for the strategy name
  \<open>constructor\<close>.
\<close>

theorem flameLimit_accepts_inherited_name:
  "flameLimit (default_options\<lparr>o_backend := Some ''constructor''\<rparr>) = Inr NoStoreLimiter
   \<and> consume NoStoreLimiter 1500 ''u'' 1 = Inl (TypeError ''this.store.get is not a function'')
   \<and> flameLimit (default_options\<lparr>o_strategy := Some ''constructor''\<rparr>) = Inr NoStrategyLimiter
   \<and> consume NoStrategyLimiter 1500 ''u'' 1
       = Inl (TypeError ''strategy.consume is not a function'')"
  by (simp add: flameLimit_def default_options_def merge_defaults_def STORES_def STRATEGIES_def
        Object_prototype_def new_Store_def new_Strategy_def counter_store_def consume_def)

text \<open>
  What holds nonetheless. A name that neither the literal nor \<open>Object.prototype\<close> defines is
  refused with the intended error; an inherited name other than \<open>constructor\<close> is refused
  by \<open>new\<close>; Redis without a client is refused by the store's constructor. A configuration
  that names a real backend and a real strategy yields a limiter whose requests never
  raise.
\<close>

lemma flameLimit_unknown_backend:
  assumes "o_backend options = Some b" and "b \<noteq> ''memory''" and "b \<noteq> ''redis''"
    and "Object_prototype b = None"
  shows "flameLimit options
           = Inl (Error (''Unknown backend: '' @ b @ ''. Use 'memory' or 'redis'.''))"
  using assms by (simp add: flameLimit_def merge_defaults_def STORES_def)

lemma flameLimit_unknown_strategy:
  assumes "o_strategy options = Some s" and "STRATEGIES s = None"
  shows "\<exists>e. flameLimit options = Inl e"
  using assms
  by (simp add: flameLimit_def merge_defaults_def Let_def split: option.splits sum.splits)

lemma flameLimit_inherited_method_name:
  assumes "o_backend options = Some b" and "Object_prototype b = Some NotAConstructor"
    and "b \<noteq> ''memory''" and "b \<noteq> ''redis''"
  shows "flameLimit options = Inl (TypeError ''Store is not a constructor'')"
  using assms by (simp add: flameLimit_def merge_defaults_def STORES_def new_Store_def)

lemma flameLimit_redis_without_client:
  assumes "o_backend options = Some ''redis''" and "o_redisClient options = None"
  shows "flameLimit options = Inl (Error ''Redis client is required for RedisStore'')"
  using assms by (simp add: flameLimit_def merge_defaults_def STORES_def new_Store_def)

lemma well_formed_configuration_serves_requests:
  assumes b: "backend (merge_defaults options) = ''memory''
              \<or> backend (merge_defaults options) = ''redis'' \<and> o_redisClient options \<noteq> None"
    and s: "strategy (merge_defaults options) \<in> {''fixed'', ''sliding'', ''token''}"
  shows "\<exists>l. flameLimit options = Inr l
             \<and> (\<forall>now identifier weight. \<exists>d l'. consume l now identifier weight = Inr (d, l'))"
proof -
  obtain st where st: "new_Store (the (STORES (backend (merge_defaults options))))
                         (merge_defaults options) = Inr st"
      and ok: "st \<noteq> NotAStore"
      and known: "STORES (backend (merge_defaults options)) \<noteq> None"
    using b by (auto simp: STORES_def new_Store_def merge_defaults_def)
  from ok obtain cs bs where cs: "counter_store st = Some cs" and bs: "bucket_store st = Some bs"
    by (cases st) (auto simp: counter_store_def bucket_store_def)
  from s consider "strategy (merge_defaults options) = ''fixed''"
    | "strategy (merge_defaults options) = ''sliding''"
    | "strategy (merge_defaults options) = ''token''"
    by auto
  then show ?thesis
  proof cases
    case 1
    with st known cs show ?thesis
      by (auto simp: flameLimit_def Let_def STRATEGIES_def new_Strategy_def consume_def
            split: prod.splits)
  next
    case 2
    with st known cs show ?thesis
      by (auto simp: flameLimit_def Let_def STRATEGIES_def new_Strategy_def consume_def
            split: prod.splits)
  next
    case 3
    with st known bs show ?thesis
      by (auto simp: flameLimit_def Let_def STRATEGIES_def new_Strategy_def consume_def
            split: prod.splits)
  qed
qed

section \<open>Reset, then consume\<close>

text \<open>
  C9. For every strategy and every identity, with \<open>limit \<ge> 1\<close>, calling
  \<open>resetKey(identity)\<close> and then consuming with weight 1 at the same time instant yields
  \<open>limited = false\<close>, whatever the store held before the reset.
\<close>

theorem reset_then_consume_admits:
  assumes "1 \<le> or_default (opt_limit options) 100"
  shows "\<not> limited (fst (FixedWindow_consume (FixedWindowStrategy options) now
                          (FixedWindow_resetKey (FixedWindowStrategy options) now st key) key 1))
         \<and> \<not> limited (fst (SlidingWindow_consume (SlidingWindowStrategy options) now
                          (SlidingWindow_resetKey (SlidingWindowStrategy options) now st key) key 1))
         \<and> \<not> limited (fst (TokenBucket_consume (TokenBucketStrategy options) now
                          (TokenBucket_resetKey bst key) key 1))"
proof (intro conjI)
  let ?f = "FixedWindowStrategy options"
  have "loaded_record ?f now (FixedWindow_resetKey ?f now st key) key
          = \<lparr>count = 0, resetTime = window_of ?f now + windowMs ?f\<rparr>"
    by (simp add: loaded_record_def FixedWindow_resetKey_def window_key_def window_of_def
          Let_def store_get_del)
  with assms
  show "\<not> limited (fst (FixedWindow_consume ?f now (FixedWindow_resetKey ?f now st key) key 1))"
    by (simp add: FixedWindow_consume_eq Let_def FixedWindowStrategy_def)
next
  let ?s = "SlidingWindowStrategy options"
  let ?st = "SlidingWindow_resetKey ?s now st key"
  have cur: "store_get now ?st (window_key key (window_of ?s now)) = None"
    by (simp add: SlidingWindow_resetKey_def window_key_def window_of_def Let_def
          store_get_del store_get_del_None)
  have prev: "store_get now ?st (window_key key (window_of ?s now - windowMs ?s)) = None"
    by (simp add: SlidingWindow_resetKey_def window_key_def window_of_def Let_def
          store_get_del)
  have "count (loaded_record ?s now ?st key) = 0"
    using cur by (simp add: loaded_record_def)
  moreover have "loaded_previousCount ?s now ?st key = 0"
    using prev by (simp add: loaded_previousCount_def)
  ultimately
  show "\<not> limited (fst (SlidingWindow_consume ?s now ?st key 1))"
    using assms by (simp add: SlidingWindow_consume_eq Let_def SlidingWindowStrategy_def)
next
  let ?t = "TokenBucketStrategy options"
  have "store_get now (TokenBucket_resetKey bst key) (key @ '':token'') = None"
    by (simp add: TokenBucket_resetKey_def Let_def store_get_del)
  with assms
  show "\<not> limited (fst (TokenBucket_consume ?t now (TokenBucket_resetKey bst key) key 1))"
    by (simp add: TokenBucket_consume_def Let_def TokenBucketStrategy_def)
qed

text \<open>
  An identity that has used its whole quota of 5 in the current and in the previous
  window, and one whose bucket is empty, are admitted again right after the reset, and
  would have been rejected without it.
\<close>

theorem reset_then_consume_admits_witness:
  "1 \<le> or_default (opt_limit ex_options) 100
   \<and> limited (fst (FixedWindow_consume (FixedWindowStrategy ex_options) 1500
                     ex_counters_full ''u'' 1))
   \<and> \<not> limited (fst (FixedWindow_consume (FixedWindowStrategy ex_options) 1500
            (FixedWindow_resetKey (FixedWindowStrategy ex_options) 1500 ex_counters_full ''u'')
            ''u'' 1))
   \<and> \<not> limited (fst (SlidingWindow_consume (SlidingWindowStrategy ex_options) 1500
            (SlidingWindow_resetKey (SlidingWindowStrategy ex_options) 1500 ex_counters_full ''u'')
            ''u'' 1))
   \<and> \<not> limited (fst (TokenBucket_consume (TokenBucketStrategy ex_options) 0
            (TokenBucket_resetKey ex_buckets_memory ''u'') ''u'' 1))"
proof -
  have h: "1 \<le> or_default (opt_limit ex_options) 100"
    by (simp add: ex_eval)
  have before: "limited (fst (FixedWindow_consume (FixedWindowStrategy ex_options) 1500
                                ex_counters_full ''u'' 1))"
    by (simp add: FixedWindow_consume_def Let_def ex_eval key_eval)
  from h before
    reset_then_consume_admits [OF h, where now = 1500 and st = ex_counters_full
      and key = "''u''" and bst = ex_buckets_memory]
    reset_then_consume_admits [OF h, where now = 0 and st = ex_counters_full
      and key = "''u''" and bst = ex_buckets_memory]
  show ?thesis by blast
qed

end
